theory Spec2Isabelle
  imports Main "HOL-Library.Sublist"
begin

section \<open>JavaScript values and string operations used by the action bar\<close>

text \<open>
  Tags, user ids and annotation ids are JavaScript strings. Every operation the component
  applies to them (\<^verbatim>\<open>startsWith\<close>, \<^verbatim>\<open>===\<close>, concatenation in a template literal) works
  element by element on the sequence of code units, so a string is modelled as the list of
  its units, type \<^typ>\<open>string\<close>.
\<close>

text \<open>\<^verbatim>\<open>t.startsWith(s)\<close>: the units of \<open>s\<close> are the first units of \<open>t\<close>.\<close>

fun startsWith :: "string \<Rightarrow> string \<Rightarrow> bool" where
  "startsWith t [] = True"
| "startsWith [] (c # s) = False"
| "startsWith (d # t) (c # s) = (d = c \<and> startsWith t s)"

text \<open>
  A value of type \<^verbatim>\<open>string | null\<close> (or \<^verbatim>\<open>string | undefined\<close>) is a \<^typ>\<open>string option\<close>.
  Inside a template literal \<^verbatim>\<open>null\<close> is written as the four letters \<^verbatim>\<open>null\<close>.
\<close>

fun templateString :: "string option \<Rightarrow> string" where
  "templateString None = ''null''"
| "templateString (Some s) = s"

text \<open>\<^verbatim>\<open>!!v\<close> for such a value: \<^verbatim>\<open>null\<close>, \<^verbatim>\<open>undefined\<close> and the empty string are falsy.\<close>

fun truthy :: "string option \<Rightarrow> bool" where
  "truthy None = False"
| "truthy (Some s) = (s \<noteq> [])"

text \<open>
  A configuration value as it arrives from the embedding page: \<^verbatim>\<open>=== false\<close> holds for
  the boolean \<^verbatim>\<open>false\<close> alone, not for the other falsy values.
\<close>

datatype js_value =
    JUndefined
  | JNull
  | JBool bool
  | JNumber int
  | JString string

text \<open>An integer written in a template literal: decimal digits, a minus sign if negative.\<close>

definition digitChar :: "nat \<Rightarrow> char" where
  "digitChar d = ''0123456789'' ! (d mod 10)"

fun digits :: "nat \<Rightarrow> string" where
  "digits n = (if n < 10 then [digitChar n] else digits (n div 10) @ [digitChar n])"

declare digits.simps [simp del]

definition numberString :: "int \<Rightarrow> string" where
  "numberString i = (if i < 0 then CHR ''-'' # digits (nat (- i)) else digits (nat i))"

section \<open>Annotations, the store and the services\<close>

record permissions =
  perm_read :: "string list"
  perm_update :: "string list"
  perm_delete :: "string list"

text \<open>
  A saved annotation. \<open>ann_tags\<close> and \<open>ann_references\<close> are \<open>None\<close> when the property is
  absent (the component guards both with \<^verbatim>\<open>|| []\<close> or \<^verbatim>\<open>?.\<close>); \<open>ann_target\<close> lists the
  \<^verbatim>\<open>source\<close> of each target, \<open>None\<close> where a target has none.
\<close>

record annotation =
  ann_id :: string
  ann_user :: string
  ann_tags :: "string list option"
  ann_references :: "string list option"
  ann_group :: string
  ann_uri :: string
  ann_target :: "string option list"
  ann_text :: string
  ann_permissions :: permissions
  ann_flagged :: bool

text \<open>The object literal handed to \<^verbatim>\<open>annotationFromData\<close> for a vote reply.\<close>

record annotation_data =
  data_references :: "string list"
  data_group :: string
  data_uri :: string
  data_target :: "string option list"
  data_text :: string
  data_tags :: "string list"
  data_permissions :: permissions

text \<open>
  What the component reads from the sidebar store: the profile's \<^verbatim>\<open>userid\<close>
  (\<^verbatim>\<open>string | null\<close>), \<^verbatim>\<open>isLoggedIn()\<close>, and the two accessors \<^verbatim>\<open>getVoteReplies\<close> probes.
  An accessor is \<open>None\<close> when the store has no such function or the call returns a falsy
  value: in both cases the \<^verbatim>\<open>||\<close> chain moves on. An array, even an empty one, is truthy.
\<close>

record store =
  profile_userid :: "string option"
  isLoggedIn :: bool
  allAnnotations :: "annotation list option"
  annotations :: "annotation list option"

text \<open>
  An awaited service call either resolves or rejects; a rejection carries the thrown
  value's \<^verbatim>\<open>message\<close> when it has one.
\<close>

datatype outcome = Resolves | Rejects "string option"

text \<open>
  The collaborators the component calls and does not define: the annotations service and
  the permission helpers of \<^verbatim>\<open>helpers/permissions\<close>.
\<close>

record services =
  save :: "annotation \<Rightarrow> outcome"
  saveNew :: "annotation_data \<Rightarrow> outcome"
  delete :: "annotation \<Rightarrow> outcome"
  annotationFromData :: "annotation_data \<Rightarrow> annotation_data"
  isPrivate :: "permissions \<Rightarrow> bool"
  sharedPermissions :: "string option \<Rightarrow> string \<Rightarrow> permissions"
  privatePermissions :: "string option \<Rightarrow> permissions"

text \<open>The calls a handler makes on its collaborators, in the order it makes them.\<close>

datatype effect =
    OpenSidebarPanel string
  | Save annotation
  | SaveNew annotation_data
  | Delete annotation
  | ToastError string

datatype vote_type = Like | Dislike

fun typeName :: "vote_type \<Rightarrow> string" where
  "typeName Like = ''like''"
| "typeName Dislike = ''dislike''"

section \<open>Flagging (both versions of the component)\<close>

record service =
  allowFlagging :: js_value

text \<open>
  \<^verbatim>\<open>serviceConfig\<close> lives in \<^verbatim>\<open>config/service-config\<close>; it is a parameter here. It returns
  the service configuration of the settings, or \<^verbatim>\<open>null\<close>. A service that does not set
  \<^verbatim>\<open>allowFlagging\<close> has \<open>JUndefined\<close> there.
\<close>

definition flaggingEnabled :: "('s \<Rightarrow> service option) \<Rightarrow> 's \<Rightarrow> bool" where
  "flaggingEnabled serviceConfig settings =
     (case serviceConfig settings of
        None \<Rightarrow> True
      | Some svc \<Rightarrow> if allowFlagging svc = JBool False then False else True)"

definition showFlagAction ::
  "('s \<Rightarrow> service option) \<Rightarrow> 's \<Rightarrow> store \<Rightarrow> annotation \<Rightarrow> bool" where
  "showFlagAction serviceConfig settings st annotation =
     (flaggingEnabled serviceConfig settings \<and>
      truthy (profile_userid st) \<and>
      profile_userid st \<noteq> Some (ann_user annotation))"

section \<open>Votes kept as tags of the annotation itself (AnnotationActionBar.tsx)\<close>

definition tags :: "annotation \<Rightarrow> string list" where
  "tags annotation = (case ann_tags annotation of None \<Rightarrow> [] | Some ts \<Rightarrow> ts)"

definition likePrefix :: string where
  "likePrefix = ''vote:like:''"

definition dislikePrefix :: string where
  "dislikePrefix = ''vote:dislike:''"

definition userLikeTag :: "string list \<Rightarrow> string option \<Rightarrow> string option" where
  "userLikeTag tgs userId =
     List.find (\<lambda>t. startsWith t (likePrefix @ templateString userId)) tgs"

definition userDislikeTag :: "string list \<Rightarrow> string option \<Rightarrow> string option" where
  "userDislikeTag tgs userId =
     List.find (\<lambda>t. startsWith t (dislikePrefix @ templateString userId)) tgs"

definition likeCount :: "string list \<Rightarrow> nat" where
  "likeCount tgs = length (filter (\<lambda>t. startsWith t likePrefix) tgs)"

definition dislikeCount :: "string list \<Rightarrow> nat" where
  "dislikeCount tgs = length (filter (\<lambda>t. startsWith t dislikePrefix) tgs)"

text \<open>
  The component holds the viewer's vote as the two values \<open>userLikeTag\<close> and
  \<open>userDislikeTag\<close>, one per button. \<open>viewerVote\<close> is the single value the specification
  speaks of, read from those two with the like tag first; \<open>None\<close> is its \<^verbatim>\<open>none\<close>.
\<close>

definition viewerVote :: "string list \<Rightarrow> string option \<Rightarrow> vote_type option" where
  "viewerVote tgs userId =
     (if truthy (userLikeTag tgs userId) then Some Like
      else if truthy (userDislikeTag tgs userId) then Some Dislike
      else None)"

definition otherType :: "vote_type \<Rightarrow> vote_type" where
  "otherType type = (if type = Like then Dislike else Like)"

definition alreadyVotedSameType :: "string list \<Rightarrow> string option \<Rightarrow> vote_type \<Rightarrow> bool" where
  "alreadyVotedSameType tgs userId type =
     (if type = Like then truthy (userLikeTag tgs userId)
      else truthy (userDislikeTag tgs userId))"

text \<open>
  \<open>newTags\<close> is the array \<^verbatim>\<open>handleVote\<close> hands to \<^verbatim>\<open>save\<close>: the tags left by the filter,
  then the new tag pushed unless the viewer had already voted the same way.
  \<open>timestamp\<close> is \<^verbatim>\<open>Math.floor(Date.now() / 1000)\<close>.
\<close>

definition newTags :: "string list \<Rightarrow> string option \<Rightarrow> vote_type \<Rightarrow> int \<Rightarrow> string list" where
  "newTags tgs userId type timestamp =
     (let kept = filter (\<lambda>t.
            \<not> startsWith t (''vote:'' @ typeName type @ '':'' @ templateString userId) \<and>
            \<not> startsWith t (''vote:'' @ typeName (otherType type) @ '':'' @ templateString userId))
          tgs
      in if \<not> alreadyVotedSameType tgs userId type
         then kept @ [''vote:'' @ typeName type @ '':'' @ templateString userId @ '':'' @
                        numberString timestamp]
         else kept)"

text \<open>\<open>now\<close> is the clock reading \<^verbatim>\<open>Date.now()\<close>, in milliseconds.\<close>

definition handleVote ::
  "services \<Rightarrow> store \<Rightarrow> annotation \<Rightarrow> int \<Rightarrow> vote_type \<Rightarrow> effect list" where
  "handleVote svc st annotation now type =
     (if \<not> isLoggedIn st then [OpenSidebarPanel ''loginPrompt'']
      else
        let payload = annotation\<lparr>ann_tags :=
              Some (newTags (tags annotation) (profile_userid st) type (now div 1000))\<rparr>
        in case save svc payload of
             Resolves \<Rightarrow> [Save payload]
           | Rejects err \<Rightarrow>
               [Save payload, ToastError (''Failed to '' @ typeName type @ '' annotation'')])"

text \<open>
  A tag the filter of \<open>handleVote\<close> drops for the viewer \<open>userId\<close>: it starts with
  \<^verbatim>\<open>vote:like:\<close> or \<^verbatim>\<open>vote:dislike:\<close> followed by the viewer's id, whatever comes next.
\<close>

definition droppedTag :: "string option \<Rightarrow> string \<Rightarrow> bool" where
  "droppedTag userId t =
     (startsWith t (likePrefix @ templateString userId) \<or>
      startsWith t (dislikePrefix @ templateString userId))"

text \<open>
  The inline marker of the specification, \<^verbatim>\<open>vote:{like|dislike}:{userid}:{timestamp}\<close>,
  for one viewer: after the viewer's id comes the colon that ends the userid segment.
\<close>

definition viewerMarker :: "string option \<Rightarrow> string \<Rightarrow> bool" where
  "viewerMarker userId t =
     (startsWith t (likePrefix @ templateString userId @ '':'') \<or>
      startsWith t (dislikePrefix @ templateString userId @ '':''))"

text \<open>
  The viewer's vote as the specification words it: a like (a dislike) when some tag is a
  like (dislike) marker whose userid segment is the viewer's id, like first.
\<close>

definition spec_viewerVote :: "string list \<Rightarrow> string option \<Rightarrow> vote_type option" where
  "spec_viewerVote tgs userId =
     (if list_ex (\<lambda>t. startsWith t (likePrefix @ templateString userId @ '':'')) tgs
      then Some Like
      else if list_ex (\<lambda>t. startsWith t (dislikePrefix @ templateString userId @ '':'')) tgs
      then Some Dislike
      else None)"

section \<open>Votes kept as reply annotations (the second version of the component)\<close>

text \<open>\<^verbatim>\<open>xs.includes(x)\<close> on an array of strings.\<close>

fun includes_js :: "string list \<Rightarrow> string \<Rightarrow> bool" where
  "includes_js [] x = False"
| "includes_js (y # ys) x = (y = x \<or> includes_js ys x)"

definition isReply :: "annotation \<Rightarrow> bool" where
  "isReply annotation =
     (case ann_references annotation of None \<Rightarrow> False | Some refs \<Rightarrow> length refs > 0)"

definition isVoteAnnotation :: "annotation \<Rightarrow> bool" where
  "isVoteAnnotation annotation =
     (case ann_tags annotation of
        None \<Rightarrow> False
      | Some ts \<Rightarrow> list_ex (\<lambda>t. startsWith t ''vote:'') ts)"

definition shouldShowVoting :: "annotation \<Rightarrow> bool" where
  "shouldShowVoting annotation = (\<not> isReply annotation \<and> \<not> isVoteAnnotation annotation)"

definition allAnns :: "store \<Rightarrow> annotation list" where
  "allAnns st =
     (case allAnnotations st of
        Some anns \<Rightarrow> anns
      | None \<Rightarrow> (case annotations st of Some anns \<Rightarrow> anns | None \<Rightarrow> []))"

definition getVoteReplies :: "store \<Rightarrow> annotation \<Rightarrow> annotation list" where
  "getVoteReplies st annotation =
     filter (\<lambda>a.
        let refs = (case ann_references a of None \<Rightarrow> [] | Some rs \<Rightarrow> rs)
        in length refs > 0 \<and>
           refs ! (length refs - 1) = ann_id annotation \<and>
           (case ann_tags a of
              None \<Rightarrow> False
            | Some ts \<Rightarrow> list_ex (\<lambda>t. startsWith t ''vote:'') ts))
       (allAnns st)"

text \<open>\<^verbatim>\<open>r.tags?.includes(x)\<close>, an absent \<^verbatim>\<open>tags\<close> giving a falsy result.\<close>

definition hasTag :: "annotation \<Rightarrow> string \<Rightarrow> bool" where
  "hasTag r x = (case ann_tags r of None \<Rightarrow> False | Some ts \<Rightarrow> includes_js ts x)"

definition likeCount_reply :: "store \<Rightarrow> annotation \<Rightarrow> nat" where
  "likeCount_reply st annotation =
     length (filter (\<lambda>r. hasTag r ''vote:like'') (getVoteReplies st annotation))"

definition dislikeCount_reply :: "store \<Rightarrow> annotation \<Rightarrow> nat" where
  "dislikeCount_reply st annotation =
     length (filter (\<lambda>r. hasTag r ''vote:dislike'') (getVoteReplies st annotation))"

definition myExistingVote :: "store \<Rightarrow> annotation \<Rightarrow> annotation option" where
  "myExistingVote st annotation =
     List.find (\<lambda>r. Some (ann_user r) = profile_userid st) (getVoteReplies st annotation)"

definition myVoteType :: "store \<Rightarrow> annotation \<Rightarrow> vote_type option" where
  "myVoteType st annotation =
     (case myExistingVote st annotation of
        None \<Rightarrow> None
      | Some r \<Rightarrow> Some (if hasTag r ''vote:like'' then Like else Dislike))"

text \<open>\<^verbatim>\<open>err?.message ?? 'Failed to record vote'\<close>.\<close>

fun errorMessage :: "string option \<Rightarrow> string" where
  "errorMessage None = ''Failed to record vote''"
| "errorMessage (Some m) = m"

text \<open>
  The reply annotation \<open>onVote\<close> builds and saves. \<open>isoNow\<close> is
  \<^verbatim>\<open>new Date().toISOString()\<close>.
\<close>

definition replyAnn :: "services \<Rightarrow> store \<Rightarrow> annotation \<Rightarrow> string \<Rightarrow> vote_type \<Rightarrow> annotation_data" where
  "replyAnn svc st annotation isoNow type =
     annotationFromData svc
       \<lparr> data_references =
           (case ann_references annotation of None \<Rightarrow> [] | Some rs \<Rightarrow> rs) @ [ann_id annotation],
         data_group = ann_group annotation,
         data_uri = ann_uri annotation,
         data_target = [case ann_target annotation of [] \<Rightarrow> None | src # _ \<Rightarrow> src],
         data_text = [],
         data_tags =
           [''vote:'' @ typeName type,
            ''user:'' @ templateString (profile_userid st),
            ''timestamp:'' @ isoNow],
         data_permissions =
           (if \<not> isPrivate svc (ann_permissions annotation)
            then sharedPermissions svc (profile_userid st) (ann_group annotation)
            else privatePermissions svc (profile_userid st)) \<rparr>"

definition createVote :: "services \<Rightarrow> store \<Rightarrow> annotation \<Rightarrow> string \<Rightarrow> vote_type \<Rightarrow> effect list" where
  "createVote svc st annotation isoNow type =
     (let r = replyAnn svc st annotation isoNow type
      in case saveNew svc r of
           Resolves \<Rightarrow> [SaveNew r]
         | Rejects err \<Rightarrow> [SaveNew r, ToastError (errorMessage err)])"

definition onVote :: "services \<Rightarrow> store \<Rightarrow> annotation \<Rightarrow> string \<Rightarrow> vote_type \<Rightarrow> effect list" where
  "onVote svc st annotation isoNow type =
     (if \<not> isLoggedIn st then [OpenSidebarPanel ''loginPrompt'']
      else
        case myExistingVote st annotation of
          None \<Rightarrow> createVote svc st annotation isoNow type
        | Some existing \<Rightarrow>
            if myVoteType st annotation = Some type
            then (case delete svc existing of
                    Resolves \<Rightarrow> [Delete existing]
                  | Rejects err \<Rightarrow> [Delete existing, ToastError (errorMessage err)])
            else (case delete svc existing of
                    Resolves \<Rightarrow> Delete existing # createVote svc st annotation isoNow type
                  | Rejects err \<Rightarrow> [Delete existing, ToastError (errorMessage err)]))"

text \<open>
  The vote replies and the viewer's vote as the specification words them: the candidates
  with a non-empty \<^verbatim>\<open>references\<close> whose last entry is the target's id and whose tags
  contain \<^verbatim>\<open>vote:like\<close> or \<^verbatim>\<open>vote:dislike\<close>; the viewer's vote is the category of the
  reply among them whose user is the viewer.
\<close>

definition refsOf :: "annotation \<Rightarrow> string list" where
  "refsOf a = (case ann_references a of None \<Rightarrow> [] | Some rs \<Rightarrow> rs)"

definition spec_voteReplies :: "annotation list \<Rightarrow> annotation \<Rightarrow> annotation list" where
  "spec_voteReplies candidates target =
     filter (\<lambda>a. refsOf a \<noteq> [] \<and> last (refsOf a) = ann_id target \<and>
                 (''vote:like'' \<in> set (tags a) \<or> ''vote:dislike'' \<in> set (tags a)))
       candidates"

definition spec_myVoteType :: "annotation list \<Rightarrow> annotation \<Rightarrow> string option \<Rightarrow> vote_type option" where
  "spec_myVoteType candidates target viewerId =
     (case List.find (\<lambda>r. Some (ann_user r) = viewerId) (spec_voteReplies candidates target) of
        None \<Rightarrow> None
      | Some r \<Rightarrow> Some (if ''vote:like'' \<in> set (tags r) then Like else Dislike))"

section \<open>Sample inputs\<close>

text \<open>
  Concrete values for the examples below: a public annotation \<^verbatim>\<open>a1\<close> written by
  \<^verbatim>\<open>alice\<close> with a given tag list, a reply to it, the store of the logged-in viewer
  \<^verbatim>\<open>bob\<close>, the same store holding a list of loaded annotations, and services whose calls
  all resolve.
\<close>

abbreviation noPermissions :: permissions where
  "noPermissions \<equiv> \<lparr>perm_read = [], perm_update = [], perm_delete = []\<rparr>"

abbreviation annotationWith :: "string list \<Rightarrow> annotation" where
  "annotationWith tgs \<equiv>
     \<lparr>ann_id = ''a1'', ann_user = ''alice'', ann_tags = Some tgs, ann_references = None,
      ann_group = ''__world__'', ann_uri = ''https://example.com/'', ann_target = [],
      ann_text = ''hello'', ann_permissions = noPermissions, ann_flagged = False\<rparr>"

abbreviation replyBy :: "string \<Rightarrow> string \<Rightarrow> string list \<Rightarrow> annotation" where
  "replyBy rid usr tgs \<equiv>
     \<lparr>ann_id = rid, ann_user = usr, ann_tags = Some tgs, ann_references = Some [''a1''],
      ann_group = ''__world__'', ann_uri = ''https://example.com/'', ann_target = [],
      ann_text = [], ann_permissions = noPermissions, ann_flagged = False\<rparr>"

abbreviation bobLoggedIn :: store where
  "bobLoggedIn \<equiv>
     \<lparr>profile_userid = Some ''bob'', isLoggedIn = True,
      allAnnotations = None, annotations = None\<rparr>"

abbreviation bobSeeing :: "annotation list \<Rightarrow> store" where
  "bobSeeing anns \<equiv>
     \<lparr>profile_userid = Some ''bob'', isLoggedIn = True,
      allAnnotations = Some anns, annotations = None\<rparr>"

abbreviation loggedOut :: store where
  "loggedOut \<equiv>
     \<lparr>profile_userid = None, isLoggedIn = False,
      allAnnotations = None, annotations = None\<rparr>"

abbreviation reliableServices :: services where
  "reliableServices \<equiv>
     \<lparr>save = (\<lambda>a. Resolves), saveNew = (\<lambda>d. Resolves), delete = (\<lambda>a. Resolves),
      annotationFromData = (\<lambda>d. d), isPrivate = (\<lambda>p. False),
      sharedPermissions = (\<lambda>u g. noPermissions),
      privatePermissions = (\<lambda>u. noPermissions)\<rparr>"

section \<open>Facts about the string operations and the tag filters\<close>

lemma startsWith_prefix: "startsWith t s = prefix s t"
  by (induction t s rule: startsWith.induct) auto

lemma startsWith_appendD: "startsWith t (p @ q) \<Longrightarrow> startsWith t p"
  by (simp add: startsWith_prefix append_prefixD)

lemma like_not_dislike: "startsWith t likePrefix \<Longrightarrow> \<not> startsWith t dislikePrefix"
proof
  assume "startsWith t likePrefix" "startsWith t dislikePrefix"
  then have "prefix likePrefix dislikePrefix \<or> prefix dislikePrefix likePrefix"
    by (simp add: startsWith_prefix prefix_same_cases)
  then show False by (simp add: likePrefix_def dislikePrefix_def)
qed

lemma startsWith_nonempty: "startsWith t s \<Longrightarrow> s \<noteq> [] \<Longrightarrow> t \<noteq> []"
  by (cases s) auto

lemma truthy_find_startsWith:
  "s \<noteq> [] \<Longrightarrow> truthy (List.find (\<lambda>t. startsWith t s) tgs) = (\<exists>t\<in>set tgs. startsWith t s)"
  by (induction tgs) (auto dest: startsWith_nonempty)

lemma truthy_userLikeTag:
  "truthy (userLikeTag tgs userId) =
     (\<exists>t\<in>set tgs. startsWith t (likePrefix @ templateString userId))"
  unfolding userLikeTag_def by (rule truthy_find_startsWith) (simp add: likePrefix_def)

lemma truthy_userDislikeTag:
  "truthy (userDislikeTag tgs userId) =
     (\<exists>t\<in>set tgs. startsWith t (dislikePrefix @ templateString userId))"
  unfolding userDislikeTag_def by (rule truthy_find_startsWith) (simp add: dislikePrefix_def)

lemma kept_filter:
  "(\<not> startsWith t (''vote:'' @ typeName type @ '':'' @ templateString userId) \<and>
    \<not> startsWith t (''vote:'' @ typeName (otherType type) @ '':'' @ templateString userId))
   = (\<not> droppedTag userId t)"
  by (cases type) (auto simp: droppedTag_def otherType_def likePrefix_def dislikePrefix_def)

lemma newTags_eq:
  "newTags tgs userId type ts =
     filter (\<lambda>t. \<not> droppedTag userId t) tgs @
       (if alreadyVotedSameType tgs userId type then []
        else [''vote:'' @ typeName type @ '':'' @ templateString userId @ '':'' @ numberString ts])"
  unfolding newTags_def Let_def kept_filter by simp

lemma viewerMarker_dropped: "viewerMarker userId t \<Longrightarrow> droppedTag userId t"
  unfolding viewerMarker_def droppedTag_def
  by (metis append.assoc startsWith_appendD)

lemma viewerVote_None_iff:
  "viewerVote tgs userId = None \<longleftrightarrow> (\<forall>t\<in>set tgs. \<not> droppedTag userId t)"
  by (auto simp: viewerVote_def truthy_userLikeTag truthy_userDislikeTag droppedTag_def)

lemma handleVote_logged_in:
  "isLoggedIn st \<Longrightarrow>
   \<exists>rest. handleVote svc st a now type =
     Save (a\<lparr>ann_tags := Some (newTags (tags a) (profile_userid st) type (now div 1000))\<rparr>) # rest
     \<and> (\<forall>e\<in>set rest. \<exists>m. e = ToastError m)"
  by (simp add: handleVote_def Let_def split: outcome.splits)

lemma likeU_dropped_like:
  "(startsWith t likePrefix \<and> droppedTag userId t) = startsWith t (likePrefix @ templateString userId)"
  unfolding droppedTag_def
  using startsWith_appendD [of t likePrefix] startsWith_appendD [of t dislikePrefix]
    like_not_dislike [of t]
  by blast

lemma dislikeU_dropped_dislike:
  "(startsWith t dislikePrefix \<and> droppedTag userId t) =
     startsWith t (dislikePrefix @ templateString userId)"
  unfolding droppedTag_def
  using startsWith_appendD [of t likePrefix] startsWith_appendD [of t dislikePrefix]
    like_not_dislike [of t]
  by blast

lemma length_filter_split:
  "length (filter P xs) =
     length (filter (\<lambda>x. P x \<and> \<not> Q x) xs) + length (filter (\<lambda>x. P x \<and> Q x) xs)"
  by (induction xs) auto

lemma filter_kept:
  "filter P (filter (\<lambda>t. \<not> droppedTag userId t) tgs) =
     filter (\<lambda>t. P t \<and> \<not> droppedTag userId t) tgs"
  by (induction tgs) auto

lemma likeCount_kept:
  "likeCount (filter (\<lambda>t. \<not> droppedTag userId t) tgs) +
     length (filter (\<lambda>t. startsWith t (likePrefix @ templateString userId)) tgs) =
   likeCount tgs"
proof -
  have "length (filter (\<lambda>t. startsWith t likePrefix) tgs) =
          length (filter (\<lambda>t. startsWith t likePrefix \<and> \<not> droppedTag userId t) tgs) +
          length (filter (\<lambda>t. startsWith t likePrefix \<and> droppedTag userId t) tgs)"
    by (rule length_filter_split)
  then show ?thesis
    by (simp only: likeCount_def filter_kept likeU_dropped_like)
qed

lemma dislikeCount_kept:
  "dislikeCount (filter (\<lambda>t. \<not> droppedTag userId t) tgs) +
     length (filter (\<lambda>t. startsWith t (dislikePrefix @ templateString userId)) tgs) =
   dislikeCount tgs"
proof -
  have "length (filter (\<lambda>t. startsWith t dislikePrefix) tgs) =
          length (filter (\<lambda>t. startsWith t dislikePrefix \<and> \<not> droppedTag userId t) tgs) +
          length (filter (\<lambda>t. startsWith t dislikePrefix \<and> droppedTag userId t) tgs)"
    by (rule length_filter_split)
  then show ?thesis
    by (simp only: dislikeCount_def filter_kept dislikeU_dropped_dislike)
qed

lemma dropped_count:
  "length (filter (droppedTag userId) tgs) =
     length (filter (\<lambda>t. startsWith t (likePrefix @ templateString userId)) tgs) +
     length (filter (\<lambda>t. startsWith t (dislikePrefix @ templateString userId)) tgs)"
proof (induction tgs)
  case Nil
  then show ?case by simp
next
  case (Cons t tgs)
  have "\<not> (startsWith t (likePrefix @ templateString userId) \<and>
            startsWith t (dislikePrefix @ templateString userId))"
    using startsWith_appendD like_not_dislike by blast
  with Cons show ?case by (auto simp: droppedTag_def)
qed

lemma viewerVote_kept:
  "viewerVote (filter (\<lambda>t. \<not> droppedTag userId t) tgs) userId = None"
  by (simp add: viewerVote_None_iff)

lemma single_marker_dropped:
  assumes "length (filter (viewerMarker userId) tgs) \<le> 1"
    and "\<forall>t\<in>set tgs. droppedTag userId t \<longrightarrow> viewerMarker userId t"
  shows "length (filter (droppedTag userId) tgs) \<le> 1"
proof -
  have "filter (droppedTag userId) tgs = filter (viewerMarker userId) tgs"
    using assms(2) viewerMarker_dropped by (intro filter_cong) auto
  with assms(1) show ?thesis by simp
qed

lemma exists_length_filter: "(\<exists>x\<in>set xs. P x) \<Longrightarrow> 1 \<le> length (filter P xs)"
  by (induction xs) auto

lemma likeCount_snoc:
  "likeCount (xs @ [m]) = likeCount xs + (if startsWith m likePrefix then 1 else 0)"
  by (simp add: likeCount_def)

lemma dislikeCount_snoc:
  "dislikeCount (xs @ [m]) = dislikeCount xs + (if startsWith m dislikePrefix then 1 else 0)"
  by (simp add: dislikeCount_def)

lemma startsWith_self_append: "startsWith (p @ r) p"
  by (simp add: startsWith_prefix)

lemma includes_js_set: "includes_js xs x = (x \<in> set xs)"
  by (induction xs) auto

lemma hasTag_set: "hasTag r x = (x \<in> set (tags r))"
  by (simp add: hasTag_def tags_def includes_js_set split: option.splits)

lemma some_vote_tag:
  "(case ann_tags c of None \<Rightarrow> False | Some ts \<Rightarrow> list_ex (\<lambda>t. startsWith t ''vote:'') ts) =
     (\<exists>t\<in>set (tags c). prefix ''vote:'' t)"
  by (auto simp: tags_def list_ex_iff startsWith_prefix split: option.splits)

lemma getVoteReplies_eq:
  "getVoteReplies st a =
     filter (\<lambda>c. refsOf c \<noteq> [] \<and> last (refsOf c) = ann_id a \<and>
                 (\<exists>t\<in>set (tags c). prefix ''vote:'' t))
       (allAnns st)"
  unfolding getVoteReplies_def Let_def some_vote_tag refsOf_def [symmetric]
  by (rule filter_cong) (auto simp: last_conv_nth)

lemma literal_vote_tag:
  "''vote:like'' \<in> set ts \<or> ''vote:dislike'' \<in> set ts \<Longrightarrow> \<exists>t\<in>set ts. prefix ''vote:'' t"
  by (auto intro: bexI [where x = "''vote:like''"] bexI [where x = "''vote:dislike''"])

lemma spec_voteReplies_sub:
  "filter (\<lambda>r. x \<in> set (tags r)) (spec_voteReplies (allAnns st) a) =
     filter (\<lambda>r. x \<in> set (tags r) \<and> (''vote:like'' \<in> set (tags r) \<or> ''vote:dislike'' \<in> set (tags r)))
       (getVoteReplies st a)"
  unfolding getVoteReplies_eq spec_voteReplies_def filter_filter
  using literal_vote_tag by (intro filter_cong) blast+

text \<open>The definitions unfolded to run the component on a concrete input.\<close>

lemmas vote_defs =
  viewerVote_def userLikeTag_def userDislikeTag_def likeCount_def dislikeCount_def
  newTags_def alreadyVotedSameType_def otherType_def likePrefix_def dislikePrefix_def
  numberString_def digits.simps [of 5] digitChar_def handleVote_def tags_def
  viewerMarker_def droppedTag_def

section \<open>Deriving the vote state from the tags\<close>

text \<open>
  C6. A tag list in which no tag starts with \<^verbatim>\<open>vote:like:\<close> or \<^verbatim>\<open>vote:dislike:\<close> gives,
  for every viewer id, a like count of 0, a dislike count of 0 and no vote of the viewer.
\<close>

theorem C6_empty_baseline:
  assumes "\<forall>t\<in>set tgs. \<not> startsWith t likePrefix \<and> \<not> startsWith t dislikePrefix"
  shows "likeCount tgs = 0 \<and> dislikeCount tgs = 0 \<and> viewerVote tgs userId = None"
proof -
  have "\<forall>t\<in>set tgs. \<not> droppedTag userId t"
    using assms startsWith_appendD unfolding droppedTag_def by blast
  then have "viewerVote tgs userId = None" by (simp add: viewerVote_None_iff)
  moreover have "likeCount tgs = 0" "dislikeCount tgs = 0"
    using assms by (simp_all add: likeCount_def dislikeCount_def)
  ultimately show ?thesis by simp
qed


text \<open>The baseline on a list whose tags only resemble vote markers.\<close>

theorem C6_empty_baseline_witness:
  "likeCount [''todo'', ''vote:liked'', ''vote:''] = 0 \<and>
   dislikeCount [''todo'', ''vote:liked'', ''vote:''] = 0 \<and>
   viewerVote [''todo'', ''vote:liked'', ''vote:''] (Some ''bob'') = None"
proof -
  have h: "\<forall>t\<in>set [''todo'', ''vote:liked'', ''vote:''].
             \<not> startsWith t likePrefix \<and> \<not> startsWith t dislikePrefix"
    by (simp add: likePrefix_def dislikePrefix_def)
  from C6_empty_baseline [OF h, of "Some ''bob''"] show ?thesis by simp
qed

text \<open>
  C2. The viewer's vote is meant to be a like (a dislike) exactly when some like (dislike)
  marker carries the viewer's id as its whole userid segment. The component tests only
  that the tag starts with the prefix followed by the viewer's id, and leaves out the colon
  that closes the segment. For the viewer \<^verbatim>\<open>bob\<close> and the single tag
  \<^verbatim>\<open>vote:like:bob2:1700000000\<close>, written by the user \<^verbatim>\<open>bob2\<close>, the component finds a like
  of the viewer, where the userid segment \<^verbatim>\<open>bob2\<close> differs from \<^verbatim>\<open>bob\<close> and the
  derivation worded by the specification finds none.
\<close>

theorem C2_userid_prefix_collision:
  "viewerVote [''vote:like:bob2:1700000000''] (Some ''bob'') = Some Like \<and>
   spec_viewerVote [''vote:like:bob2:1700000000''] (Some ''bob'') = None"
  by (simp add: viewerVote_def userLikeTag_def spec_viewerVote_def likePrefix_def dislikePrefix_def)

section \<open>Voting through the tags\<close>

text \<open>
  C7. When the viewer is logged in and has no vote on the annotation, \<open>handleVote\<close> saves
  the annotation with its tag list followed by one new tag, the viewer's marker
  \<^verbatim>\<open>vote:{type}:{userid}:{timestamp}\<close>; every tag that was there stays, in its place. The
  only other call it can make is the error toast after a rejected save.
\<close>

theorem C7_fresh_vote_frame:
  assumes "isLoggedIn st"
    and "viewerVote (tags a) (profile_userid st) = None"
  shows "\<exists>marker rest.
           handleVote svc st a now type = Save (a\<lparr>ann_tags := Some (tags a @ [marker])\<rparr>) # rest \<and>
           (\<forall>e\<in>set rest. \<exists>m. e = ToastError m) \<and>
           marker = ''vote:'' @ typeName type @ '':'' @ templateString (profile_userid st) @ '':'' @
                      numberString (now div 1000) \<and>
           viewerMarker (profile_userid st) marker"
proof -
  let ?uid = "profile_userid st"
  let ?marker = "''vote:'' @ typeName type @ '':'' @ templateString ?uid @ '':'' @
                   numberString (now div 1000)"
  have none: "\<forall>t\<in>set (tags a). \<not> droppedTag ?uid t"
    using assms(2) by (simp add: viewerVote_None_iff)
  then have kept: "filter (\<lambda>t. \<not> droppedTag ?uid t) (tags a) = tags a"
    by simp
  have "\<not> alreadyVotedSameType (tags a) ?uid type"
    using none
    by (auto simp: alreadyVotedSameType_def truthy_userLikeTag truthy_userDislikeTag droppedTag_def)
  then have new: "newTags (tags a) ?uid type (now div 1000) = tags a @ [?marker]"
    by (simp only: newTags_eq kept if_False)
  have form: "viewerMarker ?uid ?marker"
    by (cases type) (simp_all add: viewerMarker_def likePrefix_def dislikePrefix_def startsWith_prefix)
  from handleVote_logged_in [OF assms(1), of svc a now type] new form
  show ?thesis by auto
qed

text \<open>Bob, who has not voted, dislikes an annotation that carries a tag and Amy's like.\<close>

theorem C7_fresh_vote_frame_witness:
  "viewerVote [''todo'', ''vote:like:amy:2''] (Some ''bob'') = None \<and>
   handleVote reliableServices bobLoggedIn
     (annotationWith [''todo'', ''vote:like:amy:2'']) 5000 Dislike =
     [Save (annotationWith [''todo'', ''vote:like:amy:2'', ''vote:dislike:bob:5''])]"
proof -
  let ?a = "annotationWith [''todo'', ''vote:like:amy:2'']"
  have h1: "isLoggedIn bobLoggedIn" by simp
  have h2: "viewerVote (tags ?a) (profile_userid bobLoggedIn) = None"
    by (simp add: vote_defs)
  from C7_fresh_vote_frame [OF h1 h2, of reliableServices 5000 Dislike]
  show ?thesis by (simp add: vote_defs)
qed

text \<open>
  C1, as it holds. Let the viewer be logged in, let the derived vote of the viewer equal
  the requested type, let the tag list hold at most one marker of the viewer
  (\<^verbatim>\<open>vote:like:{userid}:\<close>\<dots> or \<^verbatim>\<open>vote:dislike:{userid}:\<close>\<dots>) and no other tag that starts
  with \<^verbatim>\<open>vote:like:{userid}\<close> or \<^verbatim>\<open>vote:dislike:{userid}\<close>. Then \<open>handleVote\<close> saves a tag
  list on which the viewer has no vote, the count of the requested type is one less and the
  other count is unchanged.
\<close>

theorem C1_toggle_single_marker:
  assumes "isLoggedIn st"
    and "viewerVote (tags a) (profile_userid st) = Some type"
    and "length (filter (viewerMarker (profile_userid st)) (tags a)) \<le> 1"
    and "\<forall>t\<in>set (tags a). droppedTag (profile_userid st) t \<longrightarrow> viewerMarker (profile_userid st) t"
  shows "\<exists>nt rest.
           handleVote svc st a now type = Save (a\<lparr>ann_tags := Some nt\<rparr>) # rest \<and>
           (\<forall>e\<in>set rest. \<exists>m. e = ToastError m) \<and>
           viewerVote nt (profile_userid st) = None \<and>
           (type = Like \<longrightarrow>
              likeCount nt + 1 = likeCount (tags a) \<and> dislikeCount nt = dislikeCount (tags a)) \<and>
           (type = Dislike \<longrightarrow>
              dislikeCount nt + 1 = dislikeCount (tags a) \<and> likeCount nt = likeCount (tags a))"
proof -
  let ?uid = "profile_userid st"
  let ?kept = "filter (\<lambda>t. \<not> droppedTag ?uid t) (tags a)"
  let ?nl = "length (filter (\<lambda>t. startsWith t (likePrefix @ templateString ?uid)) (tags a))"
  let ?nd = "length (filter (\<lambda>t. startsWith t (dislikePrefix @ templateString ?uid)) (tags a))"
  have one: "?nl + ?nd \<le> 1"
    using single_marker_dropped [OF assms(3,4)] by (simp add: dropped_count)
  have voted: "alreadyVotedSameType (tags a) ?uid type"
    using assms(2)
    by (cases type) (auto simp: viewerVote_def alreadyVotedSameType_def split: if_splits)
  then have new: "newTags (tags a) ?uid type (now div 1000) = ?kept"
    by (simp add: newTags_eq)
  have like: "type = Like \<longrightarrow> ?nl = 1 \<and> ?nd = 0"
  proof
    assume "type = Like"
    with voted have "\<exists>t\<in>set (tags a). startsWith t (likePrefix @ templateString ?uid)"
      by (simp add: alreadyVotedSameType_def truthy_userLikeTag)
    then have "1 \<le> ?nl" by (rule exists_length_filter)
    with one show "?nl = 1 \<and> ?nd = 0" by arith
  qed
  have dislike: "type = Dislike \<longrightarrow> ?nl = 0 \<and> ?nd = 1"
  proof
    assume "type = Dislike"
    with voted have "\<exists>t\<in>set (tags a). startsWith t (dislikePrefix @ templateString ?uid)"
      by (simp add: alreadyVotedSameType_def truthy_userDislikeTag)
    then have "1 \<le> ?nd" by (rule exists_length_filter)
    with one show "?nl = 0 \<and> ?nd = 1" by arith
  qed
  have "viewerVote ?kept ?uid = None" by (rule viewerVote_kept)
  moreover have "type = Like \<longrightarrow>
      likeCount ?kept + 1 = likeCount (tags a) \<and> dislikeCount ?kept = dislikeCount (tags a)"
    using like likeCount_kept [of ?uid "tags a"] dislikeCount_kept [of ?uid "tags a"]
    by auto
  moreover have "type = Dislike \<longrightarrow>
      dislikeCount ?kept + 1 = dislikeCount (tags a) \<and> likeCount ?kept = likeCount (tags a)"
    using dislike likeCount_kept [of ?uid "tags a"] dislikeCount_kept [of ?uid "tags a"]
    by auto
  moreover obtain rest where
    "handleVote svc st a now type = Save (a\<lparr>ann_tags := Some ?kept\<rparr>) # rest"
    "\<forall>e\<in>set rest. \<exists>m. e = ToastError m"
    using handleVote_logged_in [OF assms(1), of svc a now type] new by auto
  ultimately show ?thesis by blast
qed

text \<open>Bob takes back his like; the other tags stay.\<close>

theorem C1_toggle_single_marker_witness:
  "viewerVote [''todo'', ''vote:like:bob:1'', ''vote:dislike:amy:2''] (Some ''bob'') = Some Like \<and>
   handleVote reliableServices bobLoggedIn
     (annotationWith [''todo'', ''vote:like:bob:1'', ''vote:dislike:amy:2'']) 5000 Like =
     [Save (annotationWith [''todo'', ''vote:dislike:amy:2''])] \<and>
   viewerVote [''todo'', ''vote:dislike:amy:2''] (Some ''bob'') = None \<and>
   likeCount [''todo'', ''vote:dislike:amy:2''] + 1 =
     likeCount [''todo'', ''vote:like:bob:1'', ''vote:dislike:amy:2''] \<and>
   dislikeCount [''todo'', ''vote:dislike:amy:2''] =
     dislikeCount [''todo'', ''vote:like:bob:1'', ''vote:dislike:amy:2'']"
proof -
  let ?a = "annotationWith [''todo'', ''vote:like:bob:1'', ''vote:dislike:amy:2'']"
  have h1: "isLoggedIn bobLoggedIn" by simp
  have h2: "viewerVote (tags ?a) (profile_userid bobLoggedIn) = Some Like"
    by (simp add: vote_defs)
  have h3: "length (filter (viewerMarker (profile_userid bobLoggedIn)) (tags ?a)) \<le> 1"
    by (simp add: vote_defs)
  have h4: "\<forall>t\<in>set (tags ?a).
              droppedTag (profile_userid bobLoggedIn) t \<longrightarrow>
              viewerMarker (profile_userid bobLoggedIn) t"
    by (simp add: vote_defs)
  from C1_toggle_single_marker [OF h1 h2 h3 h4, of reliableServices 5000]
  show ?thesis by (simp add: vote_defs)
qed

text \<open>
  The toggle law does not hold for every tag list: the filter drops all tags of the
  viewer, so with two like markers of \<^verbatim>\<open>bob\<close> in the list the like count falls from 2
  to 0.
\<close>

theorem C1_toggle_counterexample:
  "viewerVote [''vote:like:bob:1'', ''vote:like:bob:2''] (Some ''bob'') = Some Like \<and>
   likeCount [''vote:like:bob:1'', ''vote:like:bob:2''] = 2 \<and>
   newTags [''vote:like:bob:1'', ''vote:like:bob:2''] (Some ''bob'') Like 5 = [] \<and>
   likeCount (newTags [''vote:like:bob:1'', ''vote:like:bob:2''] (Some ''bob'') Like 5)
     \<noteq> likeCount [''vote:like:bob:1'', ''vote:like:bob:2''] - 1"
  by (simp add: viewerVote_def userLikeTag_def likeCount_def newTags_def alreadyVotedSameType_def
        otherType_def likePrefix_def dislikePrefix_def)

text \<open>
  C4, as it holds. Let the viewer be logged in with a derived vote of dislike, let the tag
  list hold at most one marker of the viewer and no other tag that starts with
  \<^verbatim>\<open>vote:like:{userid}\<close> or \<^verbatim>\<open>vote:dislike:{userid}\<close>. Then a like request saves one tag list,
  on which the viewer's vote is like, the like count is one more, the dislike count is one
  less and no dislike tag of the viewer is left; the only other call is the error toast
  after a rejected save.
\<close>

theorem C4_switch_single_marker:
  assumes "isLoggedIn st"
    and "viewerVote (tags a) (profile_userid st) = Some Dislike"
    and "length (filter (viewerMarker (profile_userid st)) (tags a)) \<le> 1"
    and "\<forall>t\<in>set (tags a). droppedTag (profile_userid st) t \<longrightarrow> viewerMarker (profile_userid st) t"
  shows "\<exists>nt rest.
           handleVote svc st a now Like = Save (a\<lparr>ann_tags := Some nt\<rparr>) # rest \<and>
           (\<forall>e\<in>set rest. \<exists>m. e = ToastError m) \<and>
           viewerVote nt (profile_userid st) = Some Like \<and>
           likeCount nt = likeCount (tags a) + 1 \<and>
           dislikeCount nt + 1 = dislikeCount (tags a) \<and>
           userDislikeTag nt (profile_userid st) = None"
proof -
  let ?uid = "profile_userid st"
  let ?kept = "filter (\<lambda>t. \<not> droppedTag ?uid t) (tags a)"
  let ?marker = "''vote:'' @ typeName Like @ '':'' @ templateString ?uid @ '':'' @
                   numberString (now div 1000)"
  let ?nl = "length (filter (\<lambda>t. startsWith t (likePrefix @ templateString ?uid)) (tags a))"
  let ?nd = "length (filter (\<lambda>t. startsWith t (dislikePrefix @ templateString ?uid)) (tags a))"
  have one: "?nl + ?nd \<le> 1"
    using single_marker_dropped [OF assms(3,4)] by (simp add: dropped_count)
  have nolike: "\<not> truthy (userLikeTag (tags a) ?uid)"
    and dis: "truthy (userDislikeTag (tags a) ?uid)"
    using assms(2) by (auto simp: viewerVote_def split: if_splits)
  from dis have "1 \<le> ?nd"
    by (simp only: truthy_userDislikeTag exists_length_filter)
  with one have nl: "?nl = 0" and nd: "?nd = 1" by arith+
  have new: "newTags (tags a) ?uid Like (now div 1000) = ?kept @ [?marker]"
    using nolike by (simp add: newTags_eq alreadyVotedSameType_def)
  have m_eq: "?marker = (likePrefix @ templateString ?uid) @ '':'' @ numberString (now div 1000)"
    by (simp add: likePrefix_def)
  have m_likeU: "startsWith ?marker (likePrefix @ templateString ?uid)"
    by (subst m_eq) (rule startsWith_self_append)
  then have m_like: "startsWith ?marker likePrefix"
    by (rule startsWith_appendD)
  then have m_notdis: "\<not> startsWith ?marker dislikePrefix"
    by (rule like_not_dislike)
  then have m_notdisU: "\<not> startsWith ?marker (dislikePrefix @ templateString ?uid)"
    using startsWith_appendD by blast
  have vv: "viewerVote (?kept @ [?marker]) ?uid = Some Like"
    using m_likeU by (simp add: viewerVote_def truthy_userLikeTag)
  have lc: "likeCount (?kept @ [?marker]) = likeCount (tags a) + 1"
    using likeCount_kept [of ?uid "tags a"] nl m_like by (simp add: likeCount_snoc)
  have dc: "dislikeCount (?kept @ [?marker]) + 1 = dislikeCount (tags a)"
    using dislikeCount_kept [of ?uid "tags a"] nd m_notdis by (simp add: dislikeCount_snoc)
  have ud: "userDislikeTag (?kept @ [?marker]) ?uid = None"
    using m_notdisU by (auto simp: userDislikeTag_def find_None_iff droppedTag_def)
  obtain rest where
    "handleVote svc st a now Like = Save (a\<lparr>ann_tags := Some (?kept @ [?marker])\<rparr>) # rest"
    "\<forall>e\<in>set rest. \<exists>m. e = ToastError m"
    using handleVote_logged_in [OF assms(1), of svc a now Like] new by auto
  with vv lc dc ud show ?thesis by blast
qed

text \<open>Bob turns his dislike into a like.\<close>

theorem C4_switch_single_marker_witness:
  "viewerVote [''vote:dislike:bob:1'', ''vote:like:amy:2''] (Some ''bob'') = Some Dislike \<and>
   handleVote reliableServices bobLoggedIn
     (annotationWith [''vote:dislike:bob:1'', ''vote:like:amy:2'']) 5000 Like =
     [Save (annotationWith [''vote:like:amy:2'', ''vote:like:bob:5''])] \<and>
   viewerVote [''vote:like:amy:2'', ''vote:like:bob:5''] (Some ''bob'') = Some Like \<and>
   likeCount [''vote:like:amy:2'', ''vote:like:bob:5''] =
     likeCount [''vote:dislike:bob:1'', ''vote:like:amy:2''] + 1 \<and>
   dislikeCount [''vote:like:amy:2'', ''vote:like:bob:5''] + 1 =
     dislikeCount [''vote:dislike:bob:1'', ''vote:like:amy:2''] \<and>
   userDislikeTag [''vote:like:amy:2'', ''vote:like:bob:5''] (Some ''bob'') = None"
proof -
  let ?a = "annotationWith [''vote:dislike:bob:1'', ''vote:like:amy:2'']"
  have h1: "isLoggedIn bobLoggedIn" by simp
  have h2: "viewerVote (tags ?a) (profile_userid bobLoggedIn) = Some Dislike"
    by (simp add: vote_defs)
  have h3: "length (filter (viewerMarker (profile_userid bobLoggedIn)) (tags ?a)) \<le> 1"
    by (simp add: vote_defs)
  have h4: "\<forall>t\<in>set (tags ?a).
              droppedTag (profile_userid bobLoggedIn) t \<longrightarrow>
              viewerMarker (profile_userid bobLoggedIn) t"
    by (simp add: vote_defs)
  from C4_switch_single_marker [OF h1 h2 h3 h4, of reliableServices 5000]
  show ?thesis by (simp add: vote_defs)
qed

text \<open>
  The switch law does not hold for every tag list: with two dislike markers of \<^verbatim>\<open>bob\<close>
  in the list, his like request drops both, and the dislike count falls from 2 to 0.
\<close>

theorem C4_switch_counterexample:
  "viewerVote [''vote:dislike:bob:1'', ''vote:dislike:bob:2''] (Some ''bob'') = Some Dislike \<and>
   dislikeCount [''vote:dislike:bob:1'', ''vote:dislike:bob:2''] = 2 \<and>
   newTags [''vote:dislike:bob:1'', ''vote:dislike:bob:2''] (Some ''bob'') Like 5 =
     [''vote:like:bob:5''] \<and>
   dislikeCount (newTags [''vote:dislike:bob:1'', ''vote:dislike:bob:2''] (Some ''bob'') Like 5)
     \<noteq> dislikeCount [''vote:dislike:bob:1'', ''vote:dislike:bob:2''] - 1"
  by (simp add: viewerVote_def userLikeTag_def userDislikeTag_def dislikeCount_def newTags_def
        alreadyVotedSameType_def otherType_def likePrefix_def dislikePrefix_def
        numberString_def digits.simps [of 5] digitChar_def)

text \<open>
  C3. Whatever the tag list of the annotation was, a tag list that \<open>handleVote\<close> saves holds
  at most one marker of the viewer, \<^verbatim>\<open>vote:like:{userid}:\<close>\<dots> or
  \<^verbatim>\<open>vote:dislike:{userid}:\<close>\<dots>; it even holds at most one tag that starts with
  \<^verbatim>\<open>vote:like:{userid}\<close> or \<^verbatim>\<open>vote:dislike:{userid}\<close>.
\<close>

theorem C3_one_vote_per_viewer:
  assumes "Save p \<in> set (handleVote svc st a now type)"
  shows "length (filter (viewerMarker (profile_userid st)) (tags p)) \<le> 1 \<and>
         length (filter (droppedTag (profile_userid st)) (tags p)) \<le> 1"
proof -
  let ?uid = "profile_userid st"
  let ?kept = "filter (\<lambda>t. \<not> droppedTag ?uid t) (tags a)"
  define pushed where "pushed =
    (if alreadyVotedSameType (tags a) ?uid type then []
     else [''vote:'' @ typeName type @ '':'' @ templateString ?uid @ '':'' @
             numberString (now div 1000)])"
  have "tags p = newTags (tags a) ?uid type (now div 1000)"
    using assms
    by (auto simp: handleVote_def Let_def tags_def split: if_splits outcome.splits)
  then have p: "tags p = ?kept @ pushed"
    unfolding pushed_def by (simp only: newTags_eq)
  have short: "length (filter Q pushed) \<le> 1" for Q
    unfolding pushed_def by simp
  have d: "filter (droppedTag ?uid) ?kept = []"
    unfolding filter_empty_conv by simp
  have m: "filter (viewerMarker ?uid) ?kept = []"
    unfolding filter_empty_conv using viewerMarker_dropped by auto
  have "length (filter (viewerMarker ?uid) (tags p)) = length (filter (viewerMarker ?uid) pushed)"
    by (simp only: p filter_append m append_Nil)
  moreover
  have "length (filter (droppedTag ?uid) (tags p)) = length (filter (droppedTag ?uid) pushed)"
    by (simp only: p filter_append d append_Nil)
  ultimately show ?thesis using short by simp
qed

text \<open>A list with two dislike markers of Bob comes back with his one like marker.\<close>

theorem C3_one_vote_per_viewer_witness:
  "handleVote reliableServices bobLoggedIn
     (annotationWith [''vote:dislike:bob:1'', ''vote:dislike:bob:2'', ''todo'']) 5000 Like =
     [Save (annotationWith [''todo'', ''vote:like:bob:5''])] \<and>
   length (filter (viewerMarker (Some ''bob'')) [''todo'', ''vote:like:bob:5'']) \<le> 1"
proof -
  let ?a = "annotationWith [''vote:dislike:bob:1'', ''vote:dislike:bob:2'', ''todo'']"
  have h: "Save (annotationWith [''todo'', ''vote:like:bob:5'']) \<in>
             set (handleVote reliableServices bobLoggedIn ?a 5000 Like)"
    by (simp add: vote_defs)
  from C3_one_vote_per_viewer [OF h] show ?thesis by (simp add: vote_defs)
qed

text \<open>
  C9. When the viewer is not logged in, a vote request opens the login prompt and does
  nothing else, in both versions of the component: no save, no delete, no new annotation
  and no error toast.
\<close>

theorem C9_unauthenticated_vote:
  assumes "\<not> isLoggedIn st"
  shows "handleVote svc st a now type = [OpenSidebarPanel ''loginPrompt''] \<and>
         onVote svc st a isoNow type = [OpenSidebarPanel ''loginPrompt'']"
  using assms by (simp add: handleVote_def onVote_def)

text \<open>A logged-out viewer clicks like.\<close>

theorem C9_unauthenticated_vote_witness:
  "handleVote reliableServices loggedOut (annotationWith [''todo'']) 5000 Like =
     [OpenSidebarPanel ''loginPrompt''] \<and>
   onVote reliableServices loggedOut (annotationWith [''todo'']) ''2026-01-01T00:00:00.000Z'' Like =
     [OpenSidebarPanel ''loginPrompt'']"
proof -
  have h: "\<not> isLoggedIn loggedOut" by simp
  from C9_unauthenticated_vote [OF h] show ?thesis by simp
qed

section \<open>Deriving the vote state from the replies\<close>

text \<open>
  The two counts of the component are the counts over the replies that carry one of the
  two literal tags: a reply that carries \<^verbatim>\<open>vote:like\<close> or \<^verbatim>\<open>vote:dislike\<close> also has a tag
  that starts with \<^verbatim>\<open>vote:\<close>.
\<close>

lemma reply_counts_as_specified:
  "likeCount_reply st a =
     length (filter (\<lambda>r. ''vote:like'' \<in> set (tags r)) (spec_voteReplies (allAnns st) a)) \<and>
   dislikeCount_reply st a =
     length (filter (\<lambda>r. ''vote:dislike'' \<in> set (tags r)) (spec_voteReplies (allAnns st) a))"
proof -
  have "filter (\<lambda>r. ''vote:like'' \<in> set (tags r)) (spec_voteReplies (allAnns st) a) =
          filter (\<lambda>r. ''vote:like'' \<in> set (tags r)) (getVoteReplies st a)"
    unfolding spec_voteReplies_sub by (rule filter_cong) auto
  moreover
  have "filter (\<lambda>r. ''vote:dislike'' \<in> set (tags r)) (spec_voteReplies (allAnns st) a) =
          filter (\<lambda>r. ''vote:dislike'' \<in> set (tags r)) (getVoteReplies st a)"
    unfolding spec_voteReplies_sub by (rule filter_cong) auto
  ultimately show ?thesis
    by (simp add: likeCount_reply_def dislikeCount_reply_def hasTag_set)
qed

text \<open>
  C5. The vote replies are meant to be the replies to the target that carry the tag
  \<^verbatim>\<open>vote:like\<close> or \<^verbatim>\<open>vote:dislike\<close>, and the viewer's vote the category of the viewer's
  reply among them, none without one. The component takes every reply with a tag that
  starts with \<^verbatim>\<open>vote:\<close> and calls the viewer's reply a dislike whenever it lacks
  \<^verbatim>\<open>vote:like\<close>. For Bob's reply tagged \<^verbatim>\<open>vote:meh\<close> it so reports a dislike by Bob while
  its own dislike count is 0, and Bob's click on dislike deletes that reply; in the
  wording of the specification the reply is no vote reply and Bob has no vote.
\<close>

theorem C5_viewer_vote_fallthrough:
  "getVoteReplies (bobSeeing [replyBy ''r1'' ''bob'' [''vote:meh'']]) (annotationWith []) =
     [replyBy ''r1'' ''bob'' [''vote:meh'']] \<and>
   spec_voteReplies [replyBy ''r1'' ''bob'' [''vote:meh'']] (annotationWith []) = [] \<and>
   likeCount_reply (bobSeeing [replyBy ''r1'' ''bob'' [''vote:meh'']]) (annotationWith []) = 0 \<and>
   dislikeCount_reply (bobSeeing [replyBy ''r1'' ''bob'' [''vote:meh'']]) (annotationWith []) = 0 \<and>
   myVoteType (bobSeeing [replyBy ''r1'' ''bob'' [''vote:meh'']]) (annotationWith []) =
     Some Dislike \<and>
   spec_myVoteType [replyBy ''r1'' ''bob'' [''vote:meh'']] (annotationWith []) (Some ''bob'') =
     None \<and>
   onVote reliableServices (bobSeeing [replyBy ''r1'' ''bob'' [''vote:meh'']])
     (annotationWith []) ''2026-01-01T00:00:00.000Z'' Dislike =
     [Delete (replyBy ''r1'' ''bob'' [''vote:meh''])]"
  by (simp add: getVoteReplies_def allAnns_def spec_voteReplies_def spec_myVoteType_def
        likeCount_reply_def dislikeCount_reply_def onVote_def
        myVoteType_def myExistingVote_def hasTag_def refsOf_def tags_def)

section \<open>Flagging\<close>

text \<open>
  C10. Flagging is enabled when the settings have no service configuration and when the
  service configuration does not set \<^verbatim>\<open>allowFlagging\<close>; it is disabled exactly when the
  service configuration sets \<^verbatim>\<open>allowFlagging\<close> to the boolean \<^verbatim>\<open>false\<close>.
\<close>

theorem C10_flagging_default:
  "(serviceConfig settings = None \<longrightarrow> flaggingEnabled serviceConfig settings) \<and>
   (\<forall>s. serviceConfig settings = Some s \<and> allowFlagging s = JUndefined \<longrightarrow>
        flaggingEnabled serviceConfig settings) \<and>
   (\<not> flaggingEnabled serviceConfig settings \<longleftrightarrow>
      (\<exists>s. serviceConfig settings = Some s \<and> allowFlagging s = JBool False))"
  by (auto simp: flaggingEnabled_def split: option.splits)

text \<open>No service, an unset flag, other falsy values and \<^verbatim>\<open>true\<close> enable; \<^verbatim>\<open>false\<close> disables.\<close>

theorem C10_flagging_default_witness:
  "flaggingEnabled (\<lambda>s. None) () \<and>
   flaggingEnabled (\<lambda>s. Some \<lparr>allowFlagging = JUndefined\<rparr>) () \<and>
   flaggingEnabled (\<lambda>s. Some \<lparr>allowFlagging = JNull\<rparr>) () \<and>
   flaggingEnabled (\<lambda>s. Some \<lparr>allowFlagging = JNumber 0\<rparr>) () \<and>
   flaggingEnabled (\<lambda>s. Some \<lparr>allowFlagging = JBool True\<rparr>) () \<and>
   \<not> flaggingEnabled (\<lambda>s. Some \<lparr>allowFlagging = JBool False\<rparr>) ()"
  using C10_flagging_default [of "\<lambda>s. None" "()"]
    C10_flagging_default [of "\<lambda>s. Some \<lparr>allowFlagging = JUndefined\<rparr>" "()"]
    C10_flagging_default [of "\<lambda>s. Some \<lparr>allowFlagging = JNull\<rparr>" "()"]
    C10_flagging_default [of "\<lambda>s. Some \<lparr>allowFlagging = JNumber 0\<rparr>" "()"]
    C10_flagging_default [of "\<lambda>s. Some \<lparr>allowFlagging = JBool True\<rparr>" "()"]
    C10_flagging_default [of "\<lambda>s. Some \<lparr>allowFlagging = JBool False\<rparr>" "()"]
  by simp

text \<open>
  C8. The flag action is shown exactly when flagging is enabled, the viewer's id is set
  (neither \<^verbatim>\<open>null\<close> nor empty, the test \<^verbatim>\<open>!!userid\<close>) and differs from the annotation's
  author. So the author never sees it on an own annotation, and a viewer without an id
  never sees it.
\<close>

theorem C8_canFlag:
  "(showFlagAction serviceConfig settings st a \<longleftrightarrow>
      flaggingEnabled serviceConfig settings \<and>
      (\<exists>u. profile_userid st = Some u \<and> u \<noteq> [] \<and> u \<noteq> ann_user a)) \<and>
   (profile_userid st = Some (ann_user a) \<longrightarrow> \<not> showFlagAction serviceConfig settings st a) \<and>
   (profile_userid st = None \<longrightarrow> \<not> showFlagAction serviceConfig settings st a)"
  by (cases "profile_userid st") (auto simp: showFlagAction_def)

text \<open>Bob may flag Alice's annotation; Alice, a logged-out viewer and a service without flagging may not.\<close>

theorem C8_canFlag_witness:
  "showFlagAction (\<lambda>s. None) () bobLoggedIn (annotationWith []) \<and>
   \<not> showFlagAction (\<lambda>s. None) () (bobLoggedIn\<lparr>profile_userid := Some ''alice''\<rparr>) (annotationWith []) \<and>
   \<not> showFlagAction (\<lambda>s. None) () loggedOut (annotationWith []) \<and>
   \<not> showFlagAction (\<lambda>s. Some \<lparr>allowFlagging = JBool False\<rparr>) () bobLoggedIn (annotationWith [])"
  using C8_canFlag [of "\<lambda>s. None" "()" bobLoggedIn "annotationWith []"]
    C8_canFlag [of "\<lambda>s. None" "()" "bobLoggedIn\<lparr>profile_userid := Some ''alice''\<rparr>" "annotationWith []"]
    C8_canFlag [of "\<lambda>s. None" "()" loggedOut "annotationWith []"]
    C8_canFlag [of "\<lambda>s. Some \<lparr>allowFlagging = JBool False\<rparr>" "()" bobLoggedIn "annotationWith []"]
  by (simp add: flaggingEnabled_def)

end
